theory Spec2Isabelle
  imports Complex_Main
begin

text \<open>
  The geofence monitor of the note application: \<open>LocationService\<close>,
  \<open>NotificationService\<close> and \<open>GeofencingService\<close>, with their static fields as one
  state record that every method takes and returns, and the answers of the platform as an
  argument. The methods are \<open>async\<close>; the model runs one call to its end before the next
  begins.
\<close>

section \<open>Numbers and the Math library\<close>

text \<open>
  A JavaScript \<open>number\<close> that carries a coordinate, a distance or a radius is modelled as a
  \<^typ>\<open>real\<close>: the formulas are the ones of the source, evaluated without rounding error.
  The source computes in IEEE doubles, and the two differ: for some pairs of nearly antipodal
  coordinates the doubles round the haversine term \<open>a\<close> above 1, \<open>Math.sqrt (1 - a)\<close> is
  \<open>NaN\<close> and so is the distance, where the real formula gives a finite value. The model
  has no \<open>NaN\<close> and no \<open>Infinity\<close>, so nothing below speaks about the rounded value of a
  distance in general: the properties take the distance as the number the function returns
  and say what the services do with it. Millisecond timestamps and counts are integers.
\<close>

definition Math_atan2 :: "real \<Rightarrow> real \<Rightarrow> real" where
  "Math_atan2 y x =
     (if 0 < x then arctan (y / x)
      else if x < 0 then (if 0 \<le> y then arctan (y / x) + pi else arctan (y / x) - pi)
      else if 0 < y then pi / 2
      else if y < 0 then - (pi / 2)
      else 0)"

definition Math_round :: "real \<Rightarrow> int" where
  "Math_round x = \<lfloor>x + 1 / 2\<rfloor>"

section \<open>Data types (types.ts)\<close>

record LocationData =
  latitude :: real
  longitude :: real
  address :: "string option"
  radius :: real

record Note =
  note_id :: string
  note_title :: string
  note_location :: "LocationData option"

text \<open>The part of expo-location's \<open>LocationObject\<close> that the services read.\<close>

record LocationObject =
  coords_latitude :: real
  coords_longitude :: real
  timestamp :: int

record NoteLocation =
  nl_noteId :: string
  nl_location :: LocationData
  nl_noteTitle :: string

record Triggered =
  tr_noteId :: string
  tr_noteTitle :: string
  tr_distance :: int

section \<open>LocationService: distance and geofence test\<close>

text \<open>The haversine formula of \<open>calculateDistance\<close>, over the reals.\<close>

definition calculateDistance :: "real \<Rightarrow> real \<Rightarrow> real \<Rightarrow> real \<Rightarrow> real" where
  "calculateDistance lat1 lon1 lat2 lon2 =
     (let R = 6371000;
          phi1 = lat1 * pi / 180;
          phi2 = lat2 * pi / 180;
          dphi = (lat2 - lat1) * pi / 180;
          dlambda = (lon2 - lon1) * pi / 180;
          a = sin (dphi / 2) * sin (dphi / 2)
              + cos phi1 * cos phi2 * sin (dlambda / 2) * sin (dlambda / 2);
          c = 2 * Math_atan2 (sqrt a) (sqrt (1 - a))
      in R * c)"

text \<open>
  The loop of \<open>checkGeofences\<close>: \<open>triggeredNotes\<close> is the accumulator, an entry is pushed
  at its end when the distance is within the radius.
\<close>

fun checkGeofences_loop ::
  "LocationObject \<Rightarrow> NoteLocation list \<Rightarrow> Triggered list \<Rightarrow> Triggered list" where
  "checkGeofences_loop currentLocation [] triggeredNotes = triggeredNotes"
| "checkGeofences_loop currentLocation (noteLocation # rest) triggeredNotes =
     (let distance = calculateDistance
                       (coords_latitude currentLocation) (coords_longitude currentLocation)
                       (latitude (nl_location noteLocation)) (longitude (nl_location noteLocation))
      in if distance \<le> radius (nl_location noteLocation)
         then checkGeofences_loop currentLocation rest
                (triggeredNotes @
                  [\<lparr>tr_noteId = nl_noteId noteLocation,
                    tr_noteTitle = nl_noteTitle noteLocation,
                    tr_distance = Math_round distance\<rparr>])
         else checkGeofences_loop currentLocation rest triggeredNotes)"

definition checkGeofences :: "LocationObject \<Rightarrow> NoteLocation list \<Rightarrow> Triggered list" where
  "checkGeofences currentLocation noteLocations =
     checkGeofences_loop currentLocation noteLocations []"


section \<open>The platform\<close>

text \<open>
  A call into expo-location, expo-notifications or the JavaScript runtime either returns
  (its promise resolves) or throws (its promise rejects).
\<close>

datatype 'a outcome = Returns 'a | Throws

datatype json = JString string | JNumber int

record NotificationRequest =
  nr_title :: string
  nr_body :: string
  nr_data :: "(string \<times> json) list"
  nr_seconds :: "int option"

record NotificationData =
  nd_id :: string
  nd_title :: string
  nd_body :: string
  nd_data :: "(string \<times> json) list option"
  nd_scheduledDate :: int

text \<open>
  What the platform answers during one call of a service method. A permission request
  returns whether the status is \<open>granted\<close>. \<open>nr_seconds = None\<close> is the trigger
  \<open>null\<close> of an immediate notification. \<open>new_Date\<close> and \<open>Date_now\<close> are the two clock
  readings of \<open>scheduleNotification\<close>, in milliseconds. \<open>getAllNotes\<close> is the list that
  \<open>NotesService.getAllNotes\<close> reads from storage, \<open>requestPermission\<close> the result of
  \<open>NotificationService.requestPermission\<close>, and \<open>toFixed6\<close> is
  \<open>Number.prototype.toFixed(6)\<close>.
\<close>

record Platform =
  hasServicesEnabledAsync :: "bool outcome"
  requestForegroundPermissionsAsync :: "bool outcome"
  requestBackgroundPermissionsAsync :: "bool outcome"
  watchPositionAsync :: "unit outcome"
  watch_remove :: "unit outcome"
  getCurrentPositionAsync :: "(real \<times> real) outcome"
  reverseGeocodeAsync :: "string option list list outcome"
  toFixed6 :: "real \<Rightarrow> string"
  getAllNotes :: "Note list"
  requestPermission :: bool
  scheduleNotificationAsync :: "NotificationRequest \<Rightarrow> string outcome"
  new_Date :: int
  Date_now :: int

text \<open>
  The static fields of \<open>GeofencingService\<close>, \<open>LocationService\<close> and
  \<open>NotificationService\<close>, and the resources they hold in the platform: the interval timers
  and position watches that are alive, the next handle the platform hands out, and every
  call of \<open>Notifications.scheduleNotificationAsync\<close> with its outcome, oldest first.
\<close>

record App =
  isActive :: bool
  checkInterval :: "nat option"
  lastNotifiedNotes :: "string set"
  watchId :: "nat option"
  isMonitoring :: bool
  isInitialized :: bool
  liveTimers :: "nat set"
  liveWatches :: "nat set"
  nextHandle :: nat
  scheduleCalls :: "(NotificationRequest \<times> string outcome) list"

section \<open>Strings\<close>

text \<open>Decimal digits of an integer, as a template literal prints it.\<close>

fun digits :: "nat \<Rightarrow> string" where
  "digits n = (if n < 10 then [''0123456789'' ! n]
               else digits (n div 10) @ [''0123456789'' ! (n mod 10)])"

definition String_of :: "int \<Rightarrow> string" where
  "String_of i = (if i < 0 then CHR ''-'' # digits (nat (- i)) else digits (nat i))"

fun join :: "string \<Rightarrow> string list \<Rightarrow> string" where
  "join sep [] = []"
| "join sep [x] = x"
| "join sep (x # y # ys) = x @ sep @ join sep (y # ys)"

section \<open>LocationService\<close>

definition requestLocationPermission :: "Platform \<Rightarrow> bool" where
  "requestLocationPermission e =
     (case requestForegroundPermissionsAsync e of
        Throws \<Rightarrow> False
      | Returns foregroundGranted \<Rightarrow>
          if \<not> foregroundGranted then False
          else (case requestBackgroundPermissionsAsync e of
                  Throws \<Rightarrow> False
                | Returns backgroundGranted \<Rightarrow> True))"

definition validateLocation :: "LocationData \<Rightarrow> string list" where
  "validateLocation location =
     (if latitude location < -90 \<or> latitude location > 90
      then [''Latitude must be between -90 and 90 degrees''] else [])
     @ (if longitude location < -180 \<or> longitude location > 180
        then [''Longitude must be between -180 and 180 degrees''] else [])
     @ (if radius location < 10 \<or> radius location > 1000
        then [''Geofence radius must be between 10 and 1000 meters''] else [])"

definition getCurrentLocation :: "Platform \<Rightarrow> LocationData option" where
  "getCurrentLocation e =
     (if \<not> requestLocationPermission e then None
      else case getCurrentPositionAsync e of
        Throws \<Rightarrow> None
      | Returns (lat, lon) \<Rightarrow>
          let address =
                (case reverseGeocodeAsync e of
                   Throws \<Rightarrow> None
                 | Returns [] \<Rightarrow> None
                 | Returns (addr # _) \<Rightarrow>
                     Some (join '', '' (List.map_filter
                        (\<lambda>part. case part of None \<Rightarrow> None
                                 | Some str \<Rightarrow> if str = [] then None else Some str) addr)));
              locationData =
                \<lparr>latitude = lat, longitude = lon,
                 address = Some (case address of
                                   None \<Rightarrow> toFixed6 e lat @ '', '' @ toFixed6 e lon
                                 | Some str \<Rightarrow> if str = [] then toFixed6 e lat @ '', '' @ toFixed6 e lon
                                             else str),
                 radius = 100\<rparr>
          in if length (validateLocation locationData) > 0 then None
             else Some locationData)"

definition startLocationMonitoring :: "Platform \<Rightarrow> App \<Rightarrow> bool \<times> App" where
  "startLocationMonitoring e s =
     (if isMonitoring s then (True, s)
      else if \<not> requestLocationPermission e then (False, s)
      else case watchPositionAsync e of
        Throws \<Rightarrow> (False, s)
      | Returns _ \<Rightarrow>
          (True, s\<lparr>watchId := Some (nextHandle s),
                   liveWatches := insert (nextHandle s) (liveWatches s),
                   nextHandle := nextHandle s + 1,
                   isMonitoring := True\<rparr>))"

text \<open>
  When \<open>watchId.remove()\<close> throws, the \<open>catch\<close> logs the error and the two assignments
  after the call are skipped; the model leaves the platform's watch alive in that case.
\<close>

definition stopLocationMonitoring :: "Platform \<Rightarrow> App \<Rightarrow> App" where
  "stopLocationMonitoring e s =
     (case watchId s of
        None \<Rightarrow> s\<lparr>isMonitoring := False\<rparr>
      | Some w \<Rightarrow>
          (case watch_remove e of
             Throws \<Rightarrow> s
           | Returns _ \<Rightarrow> s\<lparr>liveWatches := liveWatches s - {w},
                              watchId := None,
                              isMonitoring := False\<rparr>))"

definition isLocationEnabled :: "Platform \<Rightarrow> bool" where
  "isLocationEnabled e =
     (case hasServicesEnabledAsync e of Throws \<Rightarrow> False | Returns enabled \<Rightarrow> enabled)"

section \<open>NotificationService\<close>

definition initialize :: "Platform \<Rightarrow> App \<Rightarrow> bool \<times> App" where
  "initialize e s =
     (if isInitialized s then (True, s)
      else if \<not> requestPermission e then (False, s)
      else (True, s\<lparr>isInitialized := True\<rparr>))"

text \<open>One call of \<open>Notifications.scheduleNotificationAsync\<close>, recorded with its outcome.\<close>

definition call_scheduleNotificationAsync ::
  "Platform \<Rightarrow> NotificationRequest \<Rightarrow> App \<Rightarrow> string outcome \<times> App" where
  "call_scheduleNotificationAsync e request s =
     (scheduleNotificationAsync e request,
      s\<lparr>scheduleCalls := scheduleCalls s @ [(request, scheduleNotificationAsync e request)]\<rparr>)"

text \<open>
  \<open>scheduleNotification\<close>: the result of \<open>initialize\<close> is not looked at; an empty title
  and a date that is not after \<open>new Date()\<close> throw inside the \<open>try\<close>, and the \<open>catch\<close>
  returns \<open>null\<close>, here \<open>None\<close>. A \<open>Date\<close> object is never falsy, so the test of
  \<open>scheduledDate\<close> in the first guard never fires.
\<close>

definition scheduleNotification ::
  "Platform \<Rightarrow> NotificationData \<Rightarrow> App \<Rightarrow> string option \<times> App" where
  "scheduleNotification e notificationData s =
     (let s1 = snd (initialize e s) in
      if nd_title notificationData = [] then (None, s1)
      else if nd_scheduledDate notificationData \<le> new_Date e then (None, s1)
      else
        case call_scheduleNotificationAsync e
               \<lparr>nr_title = nd_title notificationData,
                nr_body = nd_body notificationData,
                nr_data = (case nd_data notificationData of None \<Rightarrow> [] | Some d \<Rightarrow> d),
                nr_seconds = Some ((nd_scheduledDate notificationData - Date_now e) div 1000)\<rparr>
               s1 of
          (Throws, s2) \<Rightarrow> (None, s2)
        | (Returns notificationId, s2) \<Rightarrow> (Some notificationId, s2))"

text \<open>The title starts with the pin emoji U+1F4CD, written as its four UTF-8 bytes.\<close>

definition scheduleLocationNotification ::
  "Platform \<Rightarrow> string \<Rightarrow> string \<Rightarrow> int \<Rightarrow> App \<Rightarrow> string option \<times> App" where
  "scheduleLocationNotification e noteTitle noteId distance s =
     (let s1 = snd (initialize e s) in
      case call_scheduleNotificationAsync e
             \<lparr>nr_title = CHR 0xF0 # CHR 0x9F # CHR 0x93 # CHR 0x8D # '' Location Reminder'',
              nr_body = ''You're near '' @ [CHR 0x22] @ noteTitle @ [CHR 0x22] @ '' (''
                        @ String_of distance @ ''m away)'',
              nr_data = [(''type'', JString ''location''), (''noteId'', JString noteId),
                         (''distance'', JNumber distance)],
              nr_seconds = None\<rparr>
             s1 of
        (Throws, s2) \<Rightarrow> (None, s2)
      | (Returns notificationId, s2) \<Rightarrow> (Some notificationId, s2))"

definition formatNotificationTime :: "int \<Rightarrow> int \<Rightarrow> string" where
  "formatNotificationTime date now =
     (let diffInMinutes = (date - now) div (1000 * 60) in
      if diffInMinutes < 0 then ''Past due''
      else if diffInMinutes < 60
        then ''In '' @ String_of diffInMinutes @ '' minute''
             @ (if diffInMinutes \<noteq> 1 then ''s'' else [])
      else
        let diffInHours = diffInMinutes div 60 in
        if diffInHours < 24
          then ''In '' @ String_of diffInHours @ '' hour''
               @ (if diffInHours \<noteq> 1 then ''s'' else [])
        else
          let diffInDays = diffInHours div 24 in
          ''In '' @ String_of diffInDays @ '' day'' @ (if diffInDays \<noteq> 1 then ''s'' else []))"

section \<open>GeofencingService\<close>

definition startGeofencing :: "Platform \<Rightarrow> App \<Rightarrow> bool \<times> App" where
  "startGeofencing e s =
     (if isActive s then (True, s)
      else if \<not> isLocationEnabled e then (False, s)
      else
        case startLocationMonitoring e s of
          (started, s1) \<Rightarrow>
            if started
            then (started, s1\<lparr>isActive := True,
                              checkInterval := Some (nextHandle s1),
                              liveTimers := insert (nextHandle s1) (liveTimers s1),
                              nextHandle := nextHandle s1 + 1\<rparr>)
            else (started, s1))"

definition stopGeofencing :: "Platform \<Rightarrow> App \<Rightarrow> App" where
  "stopGeofencing e s =
     (let s1 = stopLocationMonitoring e s;
          s2 = (case checkInterval s1 of
                  None \<Rightarrow> s1
                | Some timer \<Rightarrow> s1\<lparr>liveTimers := liveTimers s1 - {timer},
                                    checkInterval := None\<rparr>)
      in s2\<lparr>isActive := False, lastNotifiedNotes := {}\<rparr>)"

text \<open>
  \<open>handleGeofenceTriggered\<close>: the note is marked before the notification is sent, and the
  handle that comes back only decides whether a line is logged.
\<close>

definition handleGeofenceTriggered :: "Platform \<Rightarrow> Triggered \<Rightarrow> App \<Rightarrow> App" where
  "handleGeofenceTriggered e triggered s =
     (if tr_noteId triggered \<in> lastNotifiedNotes s then s
      else
        let s1 = s\<lparr>lastNotifiedNotes := insert (tr_noteId triggered) (lastNotifiedNotes s)\<rparr>
        in snd (scheduleLocationNotification e (tr_noteTitle triggered) (tr_noteId triggered)
                  (tr_distance triggered) s1))"

fun handleTriggered_loop :: "Platform \<Rightarrow> Triggered list \<Rightarrow> App \<Rightarrow> App" where
  "handleTriggered_loop e [] s = s"
| "handleTriggered_loop e (triggered # rest) s =
     handleTriggered_loop e rest (handleGeofenceTriggered e triggered s)"

definition checkGeofencesForLocation :: "Platform \<Rightarrow> LocationObject \<Rightarrow> App \<Rightarrow> App" where
  "checkGeofencesForLocation e location s =
     (let allNotes = getAllNotes e;
          notesWithLocations = filter (\<lambda>note. note_location note \<noteq> None) allNotes
      in if length notesWithLocations = 0 then s
         else
           let noteLocations =
                 map (\<lambda>note. \<lparr>nl_noteId = note_id note,
                               nl_location = the (note_location note),
                               nl_noteTitle = note_title note\<rparr>) notesWithLocations;
               triggeredNotes = checkGeofences location noteLocations;
               s1 = handleTriggered_loop e triggeredNotes s;
               triggeredNoteIds = set (map tr_noteId triggeredNotes)
           in s1\<lparr>lastNotifiedNotes :=
                    Set.filter (\<lambda>noteId. noteId \<in> triggeredNoteIds) (lastNotifiedNotes s1)\<rparr>)"

definition handleLocationUpdate :: "Platform \<Rightarrow> LocationObject \<Rightarrow> App \<Rightarrow> App" where
  "handleLocationUpdate e location s = checkGeofencesForLocation e location s"

definition checkAllGeofences :: "Platform \<Rightarrow> App \<Rightarrow> App" where
  "checkAllGeofences e s =
     (case getCurrentLocation e of
        None \<Rightarrow> s
      | Some currentLocation \<Rightarrow>
          checkGeofencesForLocation e
            \<lparr>coords_latitude = latitude currentLocation,
             coords_longitude = longitude currentLocation,
             timestamp = Date_now e\<rparr> s)"

definition getStatus :: "App \<Rightarrow> bool \<times> nat \<times> nat" where
  "getStatus s = (isActive s, 0, card (lastNotifiedNotes s))"

definition resetNotificationHistory :: "App \<Rightarrow> App" where
  "resetNotificationHistory s = s\<lparr>lastNotifiedNotes := {}\<rparr>"

section \<open>Vocabulary of the properties\<close>

text \<open>The test of \<open>checkGeofences\<close> for one position and one geofence.\<close>

definition triggers :: "LocationObject \<Rightarrow> LocationData \<Rightarrow> bool" where
  "triggers currentLocation target \<longleftrightarrow>
     calculateDistance (coords_latitude currentLocation) (coords_longitude currentLocation)
       (latitude target) (longitude target) \<le> radius target"

text \<open>The application before any service was started.\<close>

definition initial :: App where
  "initial = \<lparr>isActive = False, checkInterval = None, lastNotifiedNotes = {},
              watchId = None, isMonitoring = False, isInitialized = False,
              liveTimers = {}, liveWatches = {}, nextHandle = 0, scheduleCalls = []\<rparr>"

text \<open>The calls of \<open>scheduleNotificationAsync\<close> made between two states.\<close>

definition emitted :: "App \<Rightarrow> App \<Rightarrow> (NotificationRequest \<times> string outcome) list" where
  "emitted s s' = drop (length (scheduleCalls s)) (scheduleCalls s')"

text \<open>The calls among \<open>calls\<close> that carry the note \<open>k\<close> in their payload.\<close>

definition calls_for ::
  "string \<Rightarrow> (NotificationRequest \<times> string outcome) list
     \<Rightarrow> (NotificationRequest \<times> string outcome) list" where
  "calls_for k calls =
     filter (\<lambda>call. map_of (nr_data (fst call)) ''noteId'' = Some (JString k)) calls"

text \<open>The notes whose geofence contains the position, as one pass computes them.\<close>

definition triggeredIds :: "Platform \<Rightarrow> LocationObject \<Rightarrow> string set" where
  "triggeredIds e location =
     set (map tr_noteId
       (checkGeofences location
          (map (\<lambda>note. \<lparr>nl_noteId = note_id note,
                        nl_location = the (note_location note),
                        nl_noteTitle = note_title note\<rparr>)
             (filter (\<lambda>note. note_location note \<noteq> None) (getAllNotes e)))))"

text \<open>A sequence of position updates, each delivered to \<open>handleLocationUpdate\<close>.\<close>

fun passes :: "(Platform \<times> LocationObject) list \<Rightarrow> App \<Rightarrow> App" where
  "passes [] s = s"
| "passes ((e, location) # rest) s = passes rest (handleLocationUpdate e location s)"

text \<open>The entry that \<open>checkGeofences\<close> pushes for a note whose geofence is \<open>target\<close>.\<close>

definition triggered_entry :: "Note \<Rightarrow> LocationData \<Rightarrow> LocationObject \<Rightarrow> Triggered" where
  "triggered_entry note target location =
     \<lparr>tr_noteId = note_id note, tr_noteTitle = note_title note,
      tr_distance = Math_round (calculateDistance
        (coords_latitude location) (coords_longitude location)
        (latitude target) (longitude target))\<rparr>"

text \<open>The request that \<open>scheduleLocationNotification\<close> hands to the platform.\<close>

definition proximity_request :: "Triggered \<Rightarrow> NotificationRequest" where
  "proximity_request triggered =
     \<lparr>nr_title = CHR 0xF0 # CHR 0x9F # CHR 0x93 # CHR 0x8D # '' Location Reminder'',
      nr_body = ''You're near '' @ [CHR 0x22] @ tr_noteTitle triggered @ [CHR 0x22] @ '' (''
                @ String_of (tr_distance triggered) @ ''m away)'',
      nr_data = [(''type'', JString ''location''), (''noteId'', JString (tr_noteId triggered)),
                 (''distance'', JNumber (tr_distance triggered))],
      nr_seconds = None\<rparr>"

subsection \<open>Concrete inputs\<close>

definition note_A :: Note where
  "note_A = \<lparr>note_id = ''A'', note_title = ''Milk'',
             note_location = Some \<lparr>latitude = 0, longitude = 0, address = None, radius = 50\<rparr>\<rparr>"

definition at_origin :: LocationObject where
  "at_origin = \<lparr>coords_latitude = 0, coords_longitude = 0, timestamp = 0\<rparr>"

definition antipode :: LocationObject where
  "antipode = \<lparr>coords_latitude = 0, coords_longitude = 180, timestamp = 0\<rparr>"

text \<open>
  A platform with location services on and foreground permission granted, whose storage
  holds \<open>notes\<close>, whose position fix is \<open>fix\<close>, whose watch removal is \<open>removal\<close> and
  whose notification service answers every request with \<open>answer\<close>.
\<close>

definition platform ::
  "Note list \<Rightarrow> (real \<times> real) outcome \<Rightarrow> unit outcome \<Rightarrow> string outcome \<Rightarrow> Platform" where
  "platform notes fix removal answer =
     \<lparr>hasServicesEnabledAsync = Returns True,
      requestForegroundPermissionsAsync = Returns True,
      requestBackgroundPermissionsAsync = Returns False,
      watchPositionAsync = Returns (),
      watch_remove = removal,
      getCurrentPositionAsync = fix,
      reverseGeocodeAsync = Throws,
      toFixed6 = (\<lambda>x. ''0.000000''),
      getAllNotes = notes,
      requestPermission = True,
      scheduleNotificationAsync = (\<lambda>request. answer),
      new_Date = 1000,
      Date_now = 1001\<rparr>"

section \<open>Two values of the distance\<close>

lemma calculateDistance_same: "calculateDistance lat lon lat lon = 0"
  by (simp add: calculateDistance_def Math_atan2_def)

lemma calculateDistance_antipode: "calculateDistance 0 180 0 0 = 6371000 * pi"
  by (simp add: calculateDistance_def Math_atan2_def Let_def)

section \<open>Properties of the geofence test\<close>

lemma checkGeofences_loop_filter:
  "checkGeofences_loop cur nls acc =
     acc @ map (\<lambda>nl. \<lparr>tr_noteId = nl_noteId nl, tr_noteTitle = nl_noteTitle nl,
                      tr_distance = Math_round (calculateDistance
                        (coords_latitude cur) (coords_longitude cur)
                        (latitude (nl_location nl)) (longitude (nl_location nl)))\<rparr>)
             (filter (\<lambda>nl. triggers cur (nl_location nl)) nls)"
  by (induction nls arbitrary: acc) (simp_all add: Let_def triggers_def)

text \<open>
  C2. For every position and every list of geofence targets, the targets that
  \<open>checkGeofences\<close> reports are, in order, those whose centre is at a distance less than or
  equal to their radius; so one target triggers if and only if the distance is at most the
  radius, the boundary included.
\<close>

theorem checkGeofences_iff_within_radius:
  "map tr_noteId (checkGeofences cur nls)
     = map nl_noteId (filter (\<lambda>nl. calculateDistance
                        (coords_latitude cur) (coords_longitude cur)
                        (latitude (nl_location nl)) (longitude (nl_location nl))
                          \<le> radius (nl_location nl)) nls)
   \<and> (checkGeofences cur [nl] \<noteq> [] \<longleftrightarrow>
        calculateDistance (coords_latitude cur) (coords_longitude cur)
          (latitude (nl_location nl)) (longitude (nl_location nl)) \<le> radius (nl_location nl))"
  by (simp add: checkGeofences_def checkGeofences_loop_filter triggers_def comp_def)

theorem checkGeofences_iff_within_radius_witness:
  "map tr_noteId (checkGeofences antipode
      [\<lparr>nl_noteId = ''A'',
        nl_location = \<lparr>latitude = 0, longitude = 0, address = None, radius = 6371000 * pi\<rparr>,
        nl_noteTitle = ''Milk''\<rparr>,
       \<lparr>nl_noteId = ''B'',
        nl_location = \<lparr>latitude = 0, longitude = 0, address = None, radius = 1000\<rparr>,
        nl_noteTitle = ''Bread''\<rparr>]) = [''A'']"
proof -
  have "(6371000::real) * pi > 1000"
    using pi_ge_two by simp
  then show ?thesis
    using checkGeofences_iff_within_radius [of antipode
      "[\<lparr>nl_noteId = ''A'',
        nl_location = \<lparr>latitude = 0, longitude = 0, address = None, radius = 6371000 * pi\<rparr>,
        nl_noteTitle = ''Milk''\<rparr>,
       \<lparr>nl_noteId = ''B'',
        nl_location = \<lparr>latitude = 0, longitude = 0, address = None, radius = 1000\<rparr>,
        nl_noteTitle = ''Bread''\<rparr>]"]
    by (simp add: antipode_def calculateDistance_antipode)
qed

section \<open>Properties of the countdown text\<close>

text \<open>
  C8. A target time 30 seconds ahead, like every target time less than a minute ahead, is
  formatted as the text of the bucket below one minute, which is \<open>In 0 minutes\<close>; a target
  time in the past is formatted as \<open>Past due\<close>.
\<close>

theorem formatNotificationTime_under_a_minute_and_past:
  "formatNotificationTime (now + 30000) now = ''In 0 minutes''
   \<and> (0 \<le> date - now \<and> date - now < 60000 \<longrightarrow> formatNotificationTime date now = ''In 0 minutes'')
   \<and> (date < now \<longrightarrow> formatNotificationTime date now = ''Past due'')"
proof -
  have past: "(date - now) div 60000 < 0" if "date < now"
    using that by (simp add: div_neg_pos_less0 zdiv_eq_0_iff)
  have zero: "(date - now) div 60000 = 0" if "0 \<le> date - now" "date - now < 60000"
    using that by simp
  show ?thesis
    by (simp add: formatNotificationTime_def String_of_def past zero)
qed

theorem formatNotificationTime_under_a_minute_and_past_witness:
  "formatNotificationTime 59999 0 = ''In 0 minutes''
   \<and> formatNotificationTime 0 1 = ''Past due''"
  using formatNotificationTime_under_a_minute_and_past [of 0 59999]
    formatNotificationTime_under_a_minute_and_past [of 1 0]
  by simp

section \<open>Properties of an evaluation pass that has nothing to evaluate\<close>

text \<open>
  C3. When the list of notes that carry a location is empty, the evaluation pass returns the
  application as it found it: no notification is sent and the set \<open>lastNotifiedNotes\<close> keeps
  every entry.
\<close>

theorem empty_targets_change_nothing:
  assumes "filter (\<lambda>note. note_location note \<noteq> None) (getAllNotes e) = []"
  shows "checkGeofencesForLocation e location s = s
         \<and> emitted s (checkGeofencesForLocation e location s) = []
         \<and> lastNotifiedNotes (checkGeofencesForLocation e location s) = lastNotifiedNotes s"
proof -
  have "checkGeofencesForLocation e location s = s"
    using assms by (simp add: checkGeofencesForLocation_def)
  then show ?thesis
    by (simp add: emitted_def)
qed

theorem empty_targets_change_nothing_witness:
  "checkGeofencesForLocation
     (platform [\<lparr>note_id = ''B'', note_title = ''Bread'', note_location = None\<rparr>]
        Throws Throws Throws)
     at_origin (initial\<lparr>lastNotifiedNotes := {''A''}\<rparr>)
   = initial\<lparr>lastNotifiedNotes := {''A''}\<rparr>"
proof -
  have "filter (\<lambda>note. note_location note \<noteq> None)
          (getAllNotes (platform [\<lparr>note_id = ''B'', note_title = ''Bread'', note_location = None\<rparr>]
             Throws Throws Throws)) = []"
    by (simp add: platform_def)
  then show ?thesis
    using empty_targets_change_nothing by blast
qed

text \<open>
  C4. When the position fix of a periodic check fails, because the permission is missing or
  the platform throws, \<open>getCurrentLocation\<close> returns nothing and the check returns the
  application as it found it: no notification is sent, nothing enters and nothing leaves
  \<open>lastNotifiedNotes\<close>.
\<close>

theorem failed_fix_skips_evaluation:
  "(getCurrentPositionAsync e = Throws \<or> \<not> requestLocationPermission e
      \<longrightarrow> getCurrentLocation e = None)
   \<and> (getCurrentLocation e = None
      \<longrightarrow> checkAllGeofences e s = s
          \<and> emitted s (checkAllGeofences e s) = []
          \<and> lastNotifiedNotes (checkAllGeofences e s) = lastNotifiedNotes s)"
  by (auto simp add: getCurrentLocation_def checkAllGeofences_def emitted_def)

theorem failed_fix_skips_evaluation_witness:
  "getCurrentPositionAsync (platform [note_A] Throws Throws (Returns ''h'')) = Throws
   \<and> checkAllGeofences (platform [note_A] Throws Throws (Returns ''h''))
        (initial\<lparr>lastNotifiedNotes := {''B''}\<rparr>)
      = initial\<lparr>lastNotifiedNotes := {''B''}\<rparr>"
proof -
  have "getCurrentPositionAsync (platform [note_A] Throws Throws (Returns ''h'')) = Throws"
    by (simp add: platform_def)
  then show ?thesis
    using failed_fix_skips_evaluation
      [of "platform [note_A] Throws Throws (Returns ''h'')" "initial\<lparr>lastNotifiedNotes := {''B''}\<rparr>"]
    by simp
qed

section \<open>Properties of the lifecycle\<close>

lemma startGeofencing_active: "isActive s \<Longrightarrow> startGeofencing e s = (True, s)"
  by (simp add: startGeofencing_def)

lemma startGeofencing_result_active:
  "\<not> isActive s \<Longrightarrow> startGeofencing e s = (r, s') \<Longrightarrow> isActive s' = r"
  by (auto simp add: startGeofencing_def startLocationMonitoring_def
        split: if_splits outcome.splits prod.splits)

lemma startGeofencing_failed:
  "\<not> isActive s \<Longrightarrow> startGeofencing e s = (r, s') \<Longrightarrow> \<not> r \<Longrightarrow> s' = s"
  by (auto simp add: startGeofencing_def startLocationMonitoring_def
        split: if_splits outcome.splits prod.splits)

lemma startGeofencing_fresh:
  assumes "\<not> isActive s" "\<not> isMonitoring s" "liveTimers s = {}" "liveWatches s = {}"
    and "startGeofencing e s = (r, s')" and "r"
  shows "card (liveWatches s') = 1 \<and> card (liveTimers s') = 1"
  using assms
  by (auto simp add: startGeofencing_def startLocationMonitoring_def
        split: if_splits outcome.splits prod.splits)

text \<open>
  C5. Starting while the monitor is active is a no-op that returns true. So when the first of
  two consecutive starts, made on an application that holds no timer and no watch, returns
  true, the second returns true and changes nothing, and exactly one position watch and one
  interval timer are alive; whatever the first start returned, never more than one of each
  is alive after the second.
\<close>

theorem startGeofencing_idempotent:
  assumes "\<not> isActive s" "\<not> isMonitoring s" "liveTimers s = {}" "liveWatches s = {}"
    and "startGeofencing e1 s = (r1, s1)" and "startGeofencing e2 s1 = (r2, s2)"
  shows "(r1 \<longrightarrow> r2 \<and> s2 = s1 \<and> isActive s2
              \<and> card (liveWatches s2) = 1 \<and> card (liveTimers s2) = 1)
         \<and> card (liveWatches s2) \<le> 1 \<and> card (liveTimers s2) \<le> 1"
proof (cases r1)
  case True
  then have "isActive s1"
    using assms(1,5) startGeofencing_result_active by blast
  then have "r2 \<and> s2 = s1"
    using assms(6) by (simp add: startGeofencing_active)
  moreover have "card (liveWatches s1) = 1 \<and> card (liveTimers s1) = 1"
    using startGeofencing_fresh [OF assms(1-5) True] .
  ultimately show ?thesis
    using \<open>isActive s1\<close> by simp
next
  case False
  then have same: "s1 = s"
    using startGeofencing_failed [OF assms(1,5)] by simp
  show ?thesis
  proof (cases r2)
    case True
    then have "card (liveWatches s2) = 1 \<and> card (liveTimers s2) = 1"
      using startGeofencing_fresh [OF assms(1-4) assms(6) [unfolded same]] by simp
    then show ?thesis
      using False by simp
  next
    case r2: False
    then have "s2 = s"
      using startGeofencing_failed [OF assms(1) assms(6) [unfolded same]] by simp
    then show ?thesis
      using False assms(3,4) by simp
  qed
qed

theorem startGeofencing_idempotent_witness:
  "startGeofencing (platform [] Throws Throws Throws) initial
     = (True, initial\<lparr>isActive := True, checkInterval := Some 1, watchId := Some 0,
                       isMonitoring := True, liveTimers := {1}, liveWatches := {0},
                       nextHandle := 2\<rparr>)
   \<and> startGeofencing (platform [] Throws Throws Throws)
        (initial\<lparr>isActive := True, checkInterval := Some 1, watchId := Some 0,
                  isMonitoring := True, liveTimers := {1}, liveWatches := {0},
                  nextHandle := 2\<rparr>)
     = (True, initial\<lparr>isActive := True, checkInterval := Some 1, watchId := Some 0,
                       isMonitoring := True, liveTimers := {1}, liveWatches := {0},
                       nextHandle := 2\<rparr>)
   \<and> card {0::nat} = 1 \<and> card {1::nat} = 1"
proof -
  let ?P = "platform [] Throws Throws Throws"
  let ?s1 = "initial\<lparr>isActive := True, checkInterval := Some 1, watchId := Some 0,
                      isMonitoring := True, liveTimers := {1}, liveWatches := {0},
                      nextHandle := 2\<rparr>"
  have first: "startGeofencing ?P initial = (True, ?s1)"
    by (simp add: startGeofencing_def startLocationMonitoring_def isLocationEnabled_def
          requestLocationPermission_def platform_def initial_def)
  have second: "startGeofencing ?P ?s1 = (True, ?s1)"
    by (simp add: startGeofencing_def)
  have "\<not> isActive initial" "\<not> isMonitoring initial" "liveTimers initial = {}"
    "liveWatches initial = {}"
    by (simp_all add: initial_def)
  from startGeofencing_idempotent [OF this first second] first second
  show ?thesis by simp
qed

lemma stopLocationMonitoring_frame:
  "isActive (stopLocationMonitoring e s) = isActive s
   \<and> checkInterval (stopLocationMonitoring e s) = checkInterval s
   \<and> liveTimers (stopLocationMonitoring e s) = liveTimers s
   \<and> lastNotifiedNotes (stopLocationMonitoring e s) = lastNotifiedNotes s"
  by (simp add: stopLocationMonitoring_def split: option.splits outcome.splits)

lemma stopLocationMonitoring_released:
  assumes "watch_remove e \<noteq> Throws \<or> watchId s = None"
  shows "watchId (stopLocationMonitoring e s) = None
         \<and> \<not> isMonitoring (stopLocationMonitoring e s)
         \<and> (\<forall>w. watchId s = Some w \<longrightarrow> w \<notin> liveWatches (stopLocationMonitoring e s))"
  using assms by (auto simp add: stopLocationMonitoring_def split: option.splits outcome.splits)

lemma startGeofencing_lastNotifiedNotes:
  "lastNotifiedNotes (snd (startGeofencing e s)) = lastNotifiedNotes s"
  by (simp add: startGeofencing_def startLocationMonitoring_def
        split: prod.splits outcome.splits)

lemma stopGeofencing_watch:
  "watchId (stopGeofencing e s) = watchId (stopLocationMonitoring e s)
   \<and> isMonitoring (stopGeofencing e s) = isMonitoring (stopLocationMonitoring e s)
   \<and> liveWatches (stopGeofencing e s) = liveWatches (stopLocationMonitoring e s)"
  by (simp add: stopGeofencing_def Let_def split: option.splits)

text \<open>
  What \<open>stopGeofencing\<close> does whatever the removal of the watch answers, and the release of
  the watch when the removal returns.
\<close>

lemma stopGeofencing_clears:
  "\<not> isActive (stopGeofencing e s)
   \<and> checkInterval (stopGeofencing e s) = None
   \<and> (\<forall>timer. checkInterval s = Some timer \<longrightarrow> timer \<notin> liveTimers (stopGeofencing e s))
   \<and> lastNotifiedNotes (stopGeofencing e s) = {}
   \<and> (watch_remove e \<noteq> Throws \<or> watchId s = None \<longrightarrow>
        watchId (stopGeofencing e s) = None
        \<and> \<not> isMonitoring (stopGeofencing e s)
        \<and> (\<forall>w. watchId s = Some w \<longrightarrow> w \<notin> liveWatches (stopGeofencing e s)))
   \<and> lastNotifiedNotes (snd (startGeofencing e' (stopGeofencing e s))) = {}"
proof -
  have timers: "\<not> isActive (stopGeofencing e s)
      \<and> checkInterval (stopGeofencing e s) = None
      \<and> (\<forall>timer. checkInterval s = Some timer \<longrightarrow> timer \<notin> liveTimers (stopGeofencing e s))
      \<and> lastNotifiedNotes (stopGeofencing e s) = {}"
    using stopLocationMonitoring_frame [of e s]
    by (simp add: stopGeofencing_def Let_def split: option.splits)
  have restart: "lastNotifiedNotes (snd (startGeofencing e' (stopGeofencing e s))) = {}"
    using timers by (simp add: startGeofencing_lastNotifiedNotes)
  have released: "watchId (stopGeofencing e s) = None
      \<and> \<not> isMonitoring (stopGeofencing e s)
      \<and> (\<forall>w. watchId s = Some w \<longrightarrow> w \<notin> liveWatches (stopGeofencing e s))"
    if "watch_remove e \<noteq> Throws \<or> watchId s = None"
    using stopLocationMonitoring_released [OF that] by (simp add: stopGeofencing_watch)
  show ?thesis
    using timers released restart by blast
qed

text \<open>
  C6. After \<open>stopGeofencing\<close> returns, the monitor is to be inactive, the position watch
  released, the timer cancelled and \<open>lastNotifiedNotes\<close> empty, also when the teardown
  errors. The code misses the watch: the monitor is started on a fresh application and
  stopped while \<open>watchId.remove()\<close> throws. \<open>stopGeofencing\<close> returns, the monitor is
  inactive and the set is empty, but the \<open>catch\<close> of \<open>stopLocationMonitoring\<close> has skipped
  \<open>watchId = null\<close> and \<open>isMonitoring = false\<close>, so \<open>LocationService\<close> still holds the
  watch and still counts as monitoring. With a removal that returns, the same stop releases
  both.
\<close>

theorem stopGeofencing_keeps_watch_when_removal_throws:
  "fst (startGeofencing (platform [] Throws Throws Throws) initial)
   \<and> watch_remove (platform [] Throws Throws Throws) = Throws
   \<and> watchId (stopGeofencing (platform [] Throws Throws Throws)
               (snd (startGeofencing (platform [] Throws Throws Throws) initial))) = Some 0
   \<and> isMonitoring (stopGeofencing (platform [] Throws Throws Throws)
               (snd (startGeofencing (platform [] Throws Throws Throws) initial)))
   \<and> \<not> isActive (stopGeofencing (platform [] Throws Throws Throws)
               (snd (startGeofencing (platform [] Throws Throws Throws) initial)))
   \<and> lastNotifiedNotes (stopGeofencing (platform [] Throws Throws Throws)
               (snd (startGeofencing (platform [] Throws Throws Throws) initial))) = {}
   \<and> watchId (stopGeofencing (platform [] Throws (Returns ()) Throws)
               (snd (startGeofencing (platform [] Throws Throws Throws) initial))) = None
   \<and> \<not> isMonitoring (stopGeofencing (platform [] Throws (Returns ()) Throws)
               (snd (startGeofencing (platform [] Throws Throws Throws) initial)))"
  by (simp add: stopGeofencing_def stopLocationMonitoring_def startGeofencing_def
        startLocationMonitoring_def isLocationEnabled_def requestLocationPermission_def
        platform_def initial_def)

section \<open>Properties of the scheduler\<close>

lemma scheduleNotification_rejected:
  assumes "nd_title nd = [] \<or> nd_scheduledDate nd \<le> new_Date e"
  shows "fst (scheduleNotification e nd s) = None
         \<and> scheduleCalls (snd (scheduleNotification e nd s)) = scheduleCalls s"
  using assms by (auto simp add: scheduleNotification_def initialize_def Let_def)

lemma scheduleNotification_accepted:
  assumes "nd_title nd \<noteq> []" and "new_Date e < nd_scheduledDate nd"
  shows "scheduleCalls (snd (scheduleNotification e nd s))
           = scheduleCalls s @
             [(\<lparr>nr_title = nd_title nd, nr_body = nd_body nd,
                nr_data = (case nd_data nd of None \<Rightarrow> [] | Some d \<Rightarrow> d),
                nr_seconds = Some ((nd_scheduledDate nd - Date_now e) div 1000)\<rparr>,
               scheduleNotificationAsync e
                 \<lparr>nr_title = nd_title nd, nr_body = nd_body nd,
                  nr_data = (case nd_data nd of None \<Rightarrow> [] | Some d \<Rightarrow> d),
                  nr_seconds = Some ((nd_scheduledDate nd - Date_now e) div 1000)\<rparr>)]
         \<and> fst (scheduleNotification e nd s)
           = (case scheduleNotificationAsync e
                \<lparr>nr_title = nd_title nd, nr_body = nd_body nd,
                 nr_data = (case nd_data nd of None \<Rightarrow> [] | Some d \<Rightarrow> d),
                 nr_seconds = Some ((nd_scheduledDate nd - Date_now e) div 1000)\<rparr> of
                Throws \<Rightarrow> None | Returns notificationId \<Rightarrow> Some notificationId)"
  using assms
  by (auto simp add: scheduleNotification_def call_scheduleNotificationAsync_def
        initialize_def Let_def split: outcome.splits)

text \<open>
  C7, as the code has it. A date that is not after the current time is rejected: the result
  is \<open>None\<close> and the notification service is not called; an empty title is rejected in the
  same way. For a date after the current time and a title that is not empty, the
  notification service is called once, with the delay
  \<open>floor ((scheduledDate - Date.now()) / 1000)\<close> seconds, and the result is the handle that
  the service returns, or \<open>None\<close> when the service throws.
\<close>

theorem scheduleNotification_rejects_or_schedules:
  "(nd_scheduledDate nd \<le> new_Date e \<or> nd_title nd = [] \<longrightarrow>
      fst (scheduleNotification e nd s) = None
      \<and> scheduleCalls (snd (scheduleNotification e nd s)) = scheduleCalls s)
   \<and> (new_Date e < nd_scheduledDate nd \<and> nd_title nd \<noteq> [] \<longrightarrow>
      (\<exists>request.
         nr_seconds request
           = Some \<lfloor>real_of_int (nd_scheduledDate nd - Date_now e) / 1000\<rfloor>
         \<and> nr_title request = nd_title nd \<and> nr_body request = nd_body nd
         \<and> scheduleCalls (snd (scheduleNotification e nd s))
             = scheduleCalls s @ [(request, scheduleNotificationAsync e request)]
         \<and> fst (scheduleNotification e nd s)
             = (case scheduleNotificationAsync e request of
                  Throws \<Rightarrow> None | Returns notificationId \<Rightarrow> Some notificationId)))"
proof -
  have floor_div: "\<lfloor>real_of_int (nd_scheduledDate nd - Date_now e) / 1000\<rfloor>
      = (nd_scheduledDate nd - Date_now e) div 1000"
    using floor_divide_of_int_eq [of "nd_scheduledDate nd - Date_now e" 1000, where ?'a = real]
    by simp
  have accepted: "\<exists>request.
         nr_seconds request
           = Some \<lfloor>real_of_int (nd_scheduledDate nd - Date_now e) / 1000\<rfloor>
         \<and> nr_title request = nd_title nd \<and> nr_body request = nd_body nd
         \<and> scheduleCalls (snd (scheduleNotification e nd s))
             = scheduleCalls s @ [(request, scheduleNotificationAsync e request)]
         \<and> fst (scheduleNotification e nd s)
             = (case scheduleNotificationAsync e request of
                  Throws \<Rightarrow> None | Returns notificationId \<Rightarrow> Some notificationId)"
    if "new_Date e < nd_scheduledDate nd \<and> nd_title nd \<noteq> []"
  proof (intro exI conjI)
    let ?request = "\<lparr>nr_title = nd_title nd, nr_body = nd_body nd,
                     nr_data = (case nd_data nd of None \<Rightarrow> [] | Some d \<Rightarrow> d),
                     nr_seconds = Some ((nd_scheduledDate nd - Date_now e) div 1000)\<rparr>"
    show "nr_seconds ?request
        = Some \<lfloor>real_of_int (nd_scheduledDate nd - Date_now e) / 1000\<rfloor>"
      by (simp only: floor_div NotificationRequest.simps)
    show "nr_title ?request = nd_title nd" by simp
    show "nr_body ?request = nd_body nd" by simp
    show "scheduleCalls (snd (scheduleNotification e nd s))
        = scheduleCalls s @ [(?request, scheduleNotificationAsync e ?request)]"
      using that scheduleNotification_accepted [of nd e s] by simp
    show "fst (scheduleNotification e nd s)
        = (case scheduleNotificationAsync e ?request of
             Throws \<Rightarrow> None | Returns notificationId \<Rightarrow> Some notificationId)"
      using that scheduleNotification_accepted [of nd e s] by simp
  qed
  show ?thesis
    using accepted scheduleNotification_rejected [of nd e s] by blast
qed

theorem scheduleNotification_rejects_or_schedules_witness:
  "scheduleNotification (platform [] Throws Throws (Returns ''h''))
     \<lparr>nd_id = ''1'', nd_title = ''T'', nd_body = ''b'', nd_data = None,
      nd_scheduledDate = 999\<rparr> initial
     = (None, initial\<lparr>isInitialized := True\<rparr>)
   \<and> fst (scheduleNotification (platform [] Throws Throws (Returns ''h''))
       \<lparr>nd_id = ''1'', nd_title = ''T'', nd_body = ''b'', nd_data = None,
        nd_scheduledDate = 6000\<rparr> initial) = Some ''h''
   \<and> map (nr_seconds \<circ> fst)
       (scheduleCalls (snd (scheduleNotification (platform [] Throws Throws (Returns ''h''))
         \<lparr>nd_id = ''1'', nd_title = ''T'', nd_body = ''b'', nd_data = None,
          nd_scheduledDate = 6000\<rparr> initial))) = [Some 4]"
proof -
  let ?P = "platform [] Throws Throws (Returns ''h'')"
  let ?past = "\<lparr>nd_id = ''1'', nd_title = ''T'', nd_body = ''b'', nd_data = None,
                 nd_scheduledDate = 999\<rparr>"
  let ?future = "\<lparr>nd_id = ''1'', nd_title = ''T'', nd_body = ''b'', nd_data = None,
                   nd_scheduledDate = 6000\<rparr>"
  have "nd_scheduledDate ?past \<le> new_Date ?P"
    by (simp add: platform_def)
  then have "fst (scheduleNotification ?P ?past initial) = None"
    using scheduleNotification_rejects_or_schedules [of ?past ?P initial] by blast
  moreover have "scheduleNotification ?P ?past initial = (None, initial\<lparr>isInitialized := True\<rparr>)"
    by (simp add: scheduleNotification_def initialize_def platform_def initial_def)
  moreover have "new_Date ?P < nd_scheduledDate ?future \<and> nd_title ?future \<noteq> []"
    by (simp add: platform_def)
  then obtain request where
    "nr_seconds request = Some \<lfloor>real_of_int (nd_scheduledDate ?future - Date_now ?P) / 1000\<rfloor>"
    "scheduleCalls (snd (scheduleNotification ?P ?future initial))
       = scheduleCalls initial @ [(request, scheduleNotificationAsync ?P request)]"
    "fst (scheduleNotification ?P ?future initial)
       = (case scheduleNotificationAsync ?P request of
            Throws \<Rightarrow> None | Returns notificationId \<Rightarrow> Some notificationId)"
    using scheduleNotification_rejects_or_schedules [of ?future ?P initial] by blast
  ultimately show ?thesis
    by (simp add: platform_def initial_def)
qed

text \<open>
  The claim C7 as it is written fails for an empty title: the date is five seconds after the
  current time, and nothing is scheduled.
\<close>

theorem scheduleNotification_empty_title_rejected:
  "new_Date (platform [] Throws Throws (Returns ''h'')) < 6000
   \<and> scheduleNotification (platform [] Throws Throws (Returns ''h''))
       \<lparr>nd_id = ''1'', nd_title = [], nd_body = ''b'', nd_data = None,
        nd_scheduledDate = 6000\<rparr> initial
     = (None, initial\<lparr>isInitialized := True\<rparr>)
   \<and> scheduleCalls (initial\<lparr>isInitialized := True\<rparr>) = []"
  by (simp add: scheduleNotification_def initialize_def platform_def initial_def)

section \<open>Properties of the evaluation pass\<close>

lemma handleGeofenceTriggered_calls:
  "scheduleCalls (handleGeofenceTriggered e t s)
     = scheduleCalls s @
       (if tr_noteId t \<in> lastNotifiedNotes s then []
        else [(proximity_request t, scheduleNotificationAsync e (proximity_request t))])"
  by (simp add: handleGeofenceTriggered_def scheduleLocationNotification_def
        call_scheduleNotificationAsync_def initialize_def proximity_request_def Let_def
        split: outcome.splits)

lemma handleGeofenceTriggered_notes:
  "lastNotifiedNotes (handleGeofenceTriggered e t s) = insert (tr_noteId t) (lastNotifiedNotes s)"
  by (auto simp add: handleGeofenceTriggered_def scheduleLocationNotification_def
        call_scheduleNotificationAsync_def initialize_def Let_def
        split: outcome.splits)

lemma calls_for_proximity_request:
  "calls_for k [(proximity_request t, out)] = (if k = tr_noteId t then [(proximity_request t, out)] else [])"
  by (auto simp add: calls_for_def proximity_request_def)

lemma calls_for_append: "calls_for k (xs @ ys) = calls_for k xs @ calls_for k ys"
  by (simp add: calls_for_def)

lemma handleTriggered_loop_notes:
  "lastNotifiedNotes (handleTriggered_loop e ts s) = lastNotifiedNotes s \<union> set (map tr_noteId ts)"
  by (induction ts arbitrary: s) (auto simp add: handleGeofenceTriggered_notes)

lemma handleTriggered_loop_calls:
  "\<exists>new. scheduleCalls (handleTriggered_loop e ts s) = scheduleCalls s @ new
     \<and> (\<forall>k. length (calls_for k new) =
          (if k \<in> set (map tr_noteId ts) \<and> k \<notin> lastNotifiedNotes s then 1 else 0))"
proof (induction ts arbitrary: s)
  case Nil
  then show ?case by (simp add: calls_for_def)
next
  case (Cons t ts)
  let ?s' = "handleGeofenceTriggered e t s"
  obtain new where new: "scheduleCalls (handleTriggered_loop e ts ?s') = scheduleCalls ?s' @ new"
    and count: "\<And>k. length (calls_for k new) =
          (if k \<in> set (map tr_noteId ts) \<and> k \<notin> lastNotifiedNotes ?s' then 1 else 0)"
    using Cons.IH [of ?s'] by blast
  show ?case
  proof (cases "tr_noteId t \<in> lastNotifiedNotes s")
    case True
    then have "scheduleCalls ?s' = scheduleCalls s" and "lastNotifiedNotes ?s' = lastNotifiedNotes s"
      by (auto simp add: handleGeofenceTriggered_calls handleGeofenceTriggered_notes)
    then show ?thesis
      using new count True by (intro exI [of _ new]) auto
  next
    case False
    let ?call = "(proximity_request t, scheduleNotificationAsync e (proximity_request t))"
    have calls: "scheduleCalls ?s' = scheduleCalls s @ [?call]"
      using False by (simp add: handleGeofenceTriggered_calls)
    have marked: "lastNotifiedNotes ?s' = insert (tr_noteId t) (lastNotifiedNotes s)"
      by (simp add: handleGeofenceTriggered_notes)
    show ?thesis
      using new count False
      by (intro exI [of _ "?call # new"])
         (auto simp add: calls marked calls_for_append calls_for_proximity_request
            calls_for_append [of _ "[?call]" new, simplified])
  qed
qed


lemma triggeredIds_no_targets:
  "filter (\<lambda>note. note_location note \<noteq> None) (getAllNotes e) = [] \<Longrightarrow> triggeredIds e location = {}"
  by (simp add: triggeredIds_def checkGeofences_def)

lemma pass_notes:
  assumes "filter (\<lambda>note. note_location note \<noteq> None) (getAllNotes e) \<noteq> []"
  shows "lastNotifiedNotes (checkGeofencesForLocation e location s) = triggeredIds e location"
  using assms
  by (auto simp add: checkGeofencesForLocation_def triggeredIds_def Let_def
        handleTriggered_loop_notes)

lemma pass_calls:
  "\<exists>new. scheduleCalls (checkGeofencesForLocation e location s) = scheduleCalls s @ new
     \<and> (\<forall>k. length (calls_for k new) =
          (if k \<in> triggeredIds e location \<and> k \<notin> lastNotifiedNotes s then 1 else 0))"
proof (cases "filter (\<lambda>note. note_location note \<noteq> None) (getAllNotes e) = []")
  case True
  then show ?thesis
    by (simp add: checkGeofencesForLocation_def triggeredIds_no_targets calls_for_def)
next
  case False
  then show ?thesis
    using handleTriggered_loop_calls
      [of e "checkGeofences location
               (map (\<lambda>note. \<lparr>nl_noteId = note_id note,
                             nl_location = the (note_location note),
                             nl_noteTitle = note_title note\<rparr>)
                  (filter (\<lambda>note. note_location note \<noteq> None) (getAllNotes e)))" s]
    by (simp add: checkGeofencesForLocation_def triggeredIds_def Let_def)
qed

lemma pass_emitted:
  "scheduleCalls (checkGeofencesForLocation e location s)
     = scheduleCalls s @ emitted s (checkGeofencesForLocation e location s)
   \<and> length (calls_for k (emitted s (checkGeofencesForLocation e location s)))
     = (if k \<in> triggeredIds e location \<and> k \<notin> lastNotifiedNotes s then 1 else 0)"
proof -
  obtain new where "scheduleCalls (checkGeofencesForLocation e location s) = scheduleCalls s @ new"
    and "\<And>k. length (calls_for k new) =
          (if k \<in> triggeredIds e location \<and> k \<notin> lastNotifiedNotes s then 1 else 0)"
    using pass_calls [of e location s] by blast
  then show ?thesis
    by (simp add: emitted_def)
qed

lemma emitted_trans:
  assumes "scheduleCalls s' = scheduleCalls s @ emitted s s'"
    and "scheduleCalls s'' = scheduleCalls s' @ emitted s' s''"
  shows "scheduleCalls s'' = scheduleCalls s @ emitted s s''"
    and "emitted s s'' = emitted s s' @ emitted s' s''"
proof -
  have "scheduleCalls s'' = scheduleCalls s @ emitted s s' @ emitted s' s''"
    using assms by simp
  then show "emitted s s'' = emitted s s' @ emitted s' s''"
    by (simp add: emitted_def [of s s''])
  then show "scheduleCalls s'' = scheduleCalls s @ emitted s s''"
    using \<open>scheduleCalls s'' = scheduleCalls s @ emitted s s' @ emitted s' s''\<close> by simp
qed

lemma passes_prefix: "scheduleCalls (passes ps s) = scheduleCalls s @ emitted s (passes ps s)"
proof (induction ps arbitrary: s)
  case Nil
  then show ?case by (simp add: emitted_def)
next
  case (Cons p ps)
  obtain e location where p: "p = (e, location)"
    by (cases p)
  let ?s' = "handleLocationUpdate e location s"
  have "scheduleCalls ?s' = scheduleCalls s @ emitted s ?s'"
    using pass_emitted [of e location s] by (simp add: handleLocationUpdate_def)
  then show ?case
    using emitted_trans(1) [OF _ Cons.IH [of ?s']] by (simp add: p)
qed

lemma passes_suppressed:
  assumes "k \<in> lastNotifiedNotes s"
    and "\<forall>p \<in> set ps. k \<in> triggeredIds (fst p) (snd p)"
  shows "calls_for k (emitted s (passes ps s)) = [] \<and> k \<in> lastNotifiedNotes (passes ps s)"
  using assms
proof (induction ps arbitrary: s)
  case Nil
  then show ?case by (simp add: emitted_def calls_for_def)
next
  case (Cons p ps)
  obtain e location where p: "p = (e, location)"
    by (cases p)
  let ?s' = "handleLocationUpdate e location s"
  have inside: "k \<in> triggeredIds e location"
    using Cons.prems(2) by (simp add: p)
  then have "filter (\<lambda>note. note_location note \<noteq> None) (getAllNotes e) \<noteq> []"
    using triggeredIds_no_targets [of e location] by auto
  then have kept: "k \<in> lastNotifiedNotes ?s'"
    using inside by (simp add: handleLocationUpdate_def pass_notes)
  have first: "scheduleCalls ?s' = scheduleCalls s @ emitted s ?s'"
    and none: "calls_for k (emitted s ?s') = []"
    using pass_emitted [of e location s k] Cons.prems(1) by (simp_all add: handleLocationUpdate_def)
  have rest: "calls_for k (emitted ?s' (passes ps ?s')) = [] \<and> k \<in> lastNotifiedNotes (passes ps ?s')"
    using Cons.IH [OF kept] Cons.prems(2) by simp
  have "emitted s (passes ps ?s') = emitted s ?s' @ emitted ?s' (passes ps ?s')"
    using emitted_trans(2) [OF first passes_prefix [of ps ?s']] .
  then show ?case
    using none rest by (simp add: p calls_for_append)
qed

text \<open>
  C10. A note that newly triggers is put into \<open>lastNotifiedNotes\<close> by the pass, whatever
  the notification service answers, and the pass calls the service exactly once for it.
  While every later pass still finds the note triggered, the note stays in the set and the
  service is not called for it again. So when that one call throws, no notification is sent
  for this entry: the failed emission is not retried.
\<close>

theorem failed_emission_not_retried:
  assumes "k \<in> triggeredIds e location" and "k \<notin> lastNotifiedNotes s"
    and "\<forall>p \<in> set later. k \<in> triggeredIds (fst p) (snd p)"
  shows "handleGeofenceTriggered e \<lparr>tr_noteId = k, tr_noteTitle = title, tr_distance = d\<rparr> s
           = snd (scheduleLocationNotification e title k d
                    (s\<lparr>lastNotifiedNotes := insert k (lastNotifiedNotes s)\<rparr>))
         \<and> k \<in> lastNotifiedNotes
               (handleGeofenceTriggered e \<lparr>tr_noteId = k, tr_noteTitle = title, tr_distance = d\<rparr> s)
         \<and> k \<in> lastNotifiedNotes (handleLocationUpdate e location s)
         \<and> length (calls_for k (emitted s (handleLocationUpdate e location s))) = 1
         \<and> k \<in> lastNotifiedNotes (passes later (handleLocationUpdate e location s))
         \<and> calls_for k (emitted (handleLocationUpdate e location s)
                          (passes later (handleLocationUpdate e location s))) = []
         \<and> length (calls_for k (emitted s (passes ((e, location) # later) s))) = 1"
proof -
  let ?s' = "handleLocationUpdate e location s"
  have "filter (\<lambda>note. note_location note \<noteq> None) (getAllNotes e) \<noteq> []"
    using assms(1) triggeredIds_no_targets [of e location] by auto
  then have marked: "k \<in> lastNotifiedNotes ?s'"
    using assms(1) by (simp add: handleLocationUpdate_def pass_notes)
  have first: "scheduleCalls ?s' = scheduleCalls s @ emitted s ?s'"
    and once: "length (calls_for k (emitted s ?s')) = 1"
    using pass_emitted [of e location s k] assms(1,2) by (simp_all add: handleLocationUpdate_def)
  have quiet: "calls_for k (emitted ?s' (passes later ?s')) = [] \<and> k \<in> lastNotifiedNotes (passes later ?s')"
    using passes_suppressed [OF marked assms(3)] .
  have "emitted s (passes later ?s') = emitted s ?s' @ emitted ?s' (passes later ?s')"
    using emitted_trans(2) [OF first passes_prefix [of later ?s']] .
  then have "length (calls_for k (emitted s (passes ((e, location) # later) s))) = 1"
    using once quiet by (simp add: calls_for_append)
  moreover have "handleGeofenceTriggered e \<lparr>tr_noteId = k, tr_noteTitle = title, tr_distance = d\<rparr> s
           = snd (scheduleLocationNotification e title k d
                    (s\<lparr>lastNotifiedNotes := insert k (lastNotifiedNotes s)\<rparr>))"
    using assms(2) by (simp add: handleGeofenceTriggered_def)
  moreover have "k \<in> lastNotifiedNotes
               (handleGeofenceTriggered e \<lparr>tr_noteId = k, tr_noteTitle = title, tr_distance = d\<rparr> s)"
    by (simp add: handleGeofenceTriggered_notes)
  ultimately show ?thesis
    using marked once quiet by simp
qed


lemma triggeredIds_at_origin:
  "triggeredIds (platform [note_A] fix removal answer) at_origin = {''A''}"
  by (simp add: triggeredIds_def checkGeofences_def platform_def note_A_def at_origin_def
        calculateDistance_same)

theorem failed_emission_not_retried_witness:
  "''A'' \<in> triggeredIds (platform [note_A] Throws Throws Throws) at_origin
   \<and> ''A'' \<notin> lastNotifiedNotes initial
   \<and> ''A'' \<in> lastNotifiedNotes
        (passes [(platform [note_A] Throws Throws Throws, at_origin),
                 (platform [note_A] Throws Throws (Returns ''h''), at_origin)]
           (handleLocationUpdate (platform [note_A] Throws Throws Throws) at_origin initial))
   \<and> length (calls_for ''A'' (emitted initial
        (passes [(platform [note_A] Throws Throws Throws, at_origin),
                 (platform [note_A] Throws Throws Throws, at_origin),
                 (platform [note_A] Throws Throws (Returns ''h''), at_origin)] initial))) = 1
   \<and> map snd (scheduleCalls
        (handleLocationUpdate (platform [note_A] Throws Throws Throws) at_origin initial))
      = [Throws]"
proof -
  let ?fail = "platform [note_A] Throws Throws Throws"
  let ?later = "[(?fail, at_origin), (platform [note_A] Throws Throws (Returns ''h''), at_origin)]"
  have 1: "''A'' \<in> triggeredIds ?fail at_origin"
    by (simp add: triggeredIds_at_origin)
  have 2: "''A'' \<notin> lastNotifiedNotes initial"
    by (simp add: initial_def)
  have 3: "\<forall>p \<in> set ?later. ''A'' \<in> triggeredIds (fst p) (snd p)"
    by (simp add: triggeredIds_at_origin)
  have "scheduleCalls initial = []"
    by (simp add: initial_def)
  then have "map snd (scheduleCalls (handleLocationUpdate ?fail at_origin initial)) = [Throws]"
    using 2 by (simp add: handleLocationUpdate_def checkGeofencesForLocation_def
          checkGeofences_def handleGeofenceTriggered_calls platform_def note_A_def at_origin_def
          calculateDistance_same Let_def)
  then show ?thesis
    using failed_emission_not_retried [OF 1 2 3] 1 2 by simp
qed


lemma single_target_pass:
  assumes "getAllNotes e = [note]" and "note_location note = Some target"
  shows "lastNotifiedNotes (handleLocationUpdate e location s)
           = (if triggers location target then {note_id note} else {})"
    and "scheduleCalls (handleLocationUpdate e location s)
           = scheduleCalls s @ emitted s (handleLocationUpdate e location s)"
    and "emitted s (handleLocationUpdate e location s)
           = (if triggers location target \<and> note_id note \<notin> lastNotifiedNotes s
              then [(proximity_request (triggered_entry note target location),
                     scheduleNotificationAsync e
                       (proximity_request (triggered_entry note target location)))]
              else [])"
proof -
  let ?t = "triggered_entry note target location"
  have pass: "handleLocationUpdate e location s =
      (if triggers location target
       then (handleGeofenceTriggered e ?t s)
              \<lparr>lastNotifiedNotes :=
                 Set.filter (\<lambda>noteId. noteId \<in> {note_id note})
                   (lastNotifiedNotes (handleGeofenceTriggered e ?t s))\<rparr>
       else s\<lparr>lastNotifiedNotes := Set.filter (\<lambda>noteId. noteId \<in> {}) (lastNotifiedNotes s)\<rparr>)"
    using assms
    by (simp add: handleLocationUpdate_def checkGeofencesForLocation_def checkGeofences_def
          triggers_def triggered_entry_def Let_def)
  have entry: "tr_noteId ?t = note_id note"
    by (simp add: triggered_entry_def)
  show "lastNotifiedNotes (handleLocationUpdate e location s)
           = (if triggers location target then {note_id note} else {})"
    by (auto simp add: pass handleGeofenceTriggered_notes entry)
  show "scheduleCalls (handleLocationUpdate e location s)
           = scheduleCalls s @ emitted s (handleLocationUpdate e location s)"
    using pass_emitted [of e location s] by (simp add: handleLocationUpdate_def)
  show "emitted s (handleLocationUpdate e location s)
           = (if triggers location target \<and> note_id note \<notin> lastNotifiedNotes s
              then [(proximity_request ?t, scheduleNotificationAsync e (proximity_request ?t))]
              else [])"
    by (simp add: pass emitted_def handleGeofenceTriggered_calls entry)
qed

text \<open>
  C1. One note carries a geofence and is not in \<open>lastNotifiedNotes\<close>. Four position updates
  arrive: inside, inside, outside, inside. Then the notification service is called exactly
  twice: once in the first pass and once in the fourth, the second and the third pass call
  it not at all. The set is empty after the third pass and holds the note after the fourth.
\<close>

theorem two_entries_two_notifications:
  assumes "note_location note = Some target"
    and "getAllNotes e1 = [note]" and "getAllNotes e2 = [note]"
    and "getAllNotes e3 = [note]" and "getAllNotes e4 = [note]"
    and "triggers p1 target" and "triggers p2 target"
    and "\<not> triggers p3 target" and "triggers p4 target"
    and "note_id note \<notin> lastNotifiedNotes s"
  shows "length (emitted s (passes [(e1, p1), (e2, p2), (e3, p3), (e4, p4)] s)) = 2
         \<and> emitted s (passes [(e1, p1), (e2, p2), (e3, p3), (e4, p4)] s)
           = [(proximity_request (triggered_entry note target p1),
               scheduleNotificationAsync e1 (proximity_request (triggered_entry note target p1))),
              (proximity_request (triggered_entry note target p4),
               scheduleNotificationAsync e4 (proximity_request (triggered_entry note target p4)))]
         \<and> length (emitted s (passes [(e1, p1)] s)) = 1
         \<and> emitted (passes [(e1, p1)] s) (passes [(e1, p1), (e2, p2)] s) = []
         \<and> emitted (passes [(e1, p1), (e2, p2)] s) (passes [(e1, p1), (e2, p2), (e3, p3)] s) = []
         \<and> length (emitted (passes [(e1, p1), (e2, p2), (e3, p3)] s)
                     (passes [(e1, p1), (e2, p2), (e3, p3), (e4, p4)] s)) = 1
         \<and> lastNotifiedNotes (passes [(e1, p1), (e2, p2), (e3, p3)] s) = {}
         \<and> lastNotifiedNotes (passes [(e1, p1), (e2, p2), (e3, p3), (e4, p4)] s) = {note_id note}"
proof -
  define s1 where "s1 = handleLocationUpdate e1 p1 s"
  define s2 where "s2 = handleLocationUpdate e2 p2 s1"
  define s3 where "s3 = handleLocationUpdate e3 p3 s2"
  define s4 where "s4 = handleLocationUpdate e4 p4 s3"
  note one = single_target_pass [OF assms(2) assms(1)]
  note two = single_target_pass [OF assms(3) assms(1)]
  note three = single_target_pass [OF assms(4) assms(1)]
  note four = single_target_pass [OF assms(5) assms(1)]
  have n1: "lastNotifiedNotes s1 = {note_id note}"
    and c1: "scheduleCalls s1 = scheduleCalls s @ emitted s s1"
    and l1: "emitted s s1 = [(proximity_request (triggered_entry note target p1),
               scheduleNotificationAsync e1 (proximity_request (triggered_entry note target p1)))]"
    unfolding s1_def using one [where location = p1 and s = s] assms(6,10) by simp_all
  have n2: "lastNotifiedNotes s2 = {note_id note}"
    and c2: "scheduleCalls s2 = scheduleCalls s1 @ emitted s1 s2"
    and l2: "emitted s1 s2 = []"
    unfolding s2_def using two [where location = p2 and s = s1] assms(7) n1 by simp_all
  have n3: "lastNotifiedNotes s3 = {}"
    and c3: "scheduleCalls s3 = scheduleCalls s2 @ emitted s2 s3"
    and l3: "emitted s2 s3 = []"
    unfolding s3_def using three [where location = p3 and s = s2] assms(8) by simp_all
  have n4: "lastNotifiedNotes s4 = {note_id note}"
    and c4: "scheduleCalls s4 = scheduleCalls s3 @ emitted s3 s4"
    and l4: "emitted s3 s4 = [(proximity_request (triggered_entry note target p4),
               scheduleNotificationAsync e4 (proximity_request (triggered_entry note target p4)))]"
    unfolding s4_def using four [where location = p4 and s = s3] assms(9) n3 by simp_all
  have "scheduleCalls s4 = scheduleCalls s @ emitted s s1 @ emitted s3 s4"
    using c1 c2 c3 c4 l2 l3 by simp
  then have "emitted s s4 = emitted s s1 @ emitted s3 s4"
    by (simp add: emitted_def [of s s4])
  then have total: "emitted s s4 = emitted s s1 @ emitted s3 s4"
    by simp
  have runs: "passes [(e1, p1)] s = s1" "passes [(e1, p1), (e2, p2)] s = s2"
    "passes [(e1, p1), (e2, p2), (e3, p3)] s = s3"
    "passes [(e1, p1), (e2, p2), (e3, p3), (e4, p4)] s = s4"
    by (simp_all add: s1_def s2_def s3_def s4_def)
  show ?thesis
    unfolding runs using total l1 l2 l3 l4 n3 n4 by simp
qed

lemma antipode_outside_note_A:
  "\<not> triggers antipode \<lparr>latitude = 0, longitude = 0, address = None, radius = 50\<rparr>"
proof -
  have "(50::real) < 6371000 * pi"
    using pi_ge_two by simp
  then show ?thesis
    by (simp add: triggers_def antipode_def calculateDistance_antipode)
qed

lemma origin_inside_note_A:
  "triggers at_origin \<lparr>latitude = 0, longitude = 0, address = None, radius = 50\<rparr>"
  by (simp add: triggers_def at_origin_def calculateDistance_same)

theorem two_entries_two_notifications_witness:
  "triggers at_origin \<lparr>latitude = 0, longitude = 0, address = None, radius = 50\<rparr>
   \<and> \<not> triggers antipode \<lparr>latitude = 0, longitude = 0, address = None, radius = 50\<rparr>
   \<and> length (emitted initial
       (passes [(platform [note_A] Throws Throws (Returns ''h''), at_origin),
                (platform [note_A] Throws Throws (Returns ''h''), at_origin),
                (platform [note_A] Throws Throws (Returns ''h''), antipode),
                (platform [note_A] Throws Throws (Returns ''h''), at_origin)] initial)) = 2
   \<and> lastNotifiedNotes
       (passes [(platform [note_A] Throws Throws (Returns ''h''), at_origin),
                (platform [note_A] Throws Throws (Returns ''h''), at_origin),
                (platform [note_A] Throws Throws (Returns ''h''), antipode)] initial) = {}
   \<and> lastNotifiedNotes
       (passes [(platform [note_A] Throws Throws (Returns ''h''), at_origin),
                (platform [note_A] Throws Throws (Returns ''h''), at_origin),
                (platform [note_A] Throws Throws (Returns ''h''), antipode),
                (platform [note_A] Throws Throws (Returns ''h''), at_origin)] initial) = {''A''}"
proof -
  let ?P = "platform [note_A] Throws Throws (Returns ''h'')"
  let ?target = "\<lparr>latitude = 0, longitude = 0, address = None, radius = 50\<rparr>"
  have target: "note_location note_A = Some ?target"
    by (simp add: note_A_def)
  have stored: "getAllNotes ?P = [note_A]"
    by (simp add: platform_def)
  have fresh: "note_id note_A \<notin> lastNotifiedNotes initial"
    by (simp add: initial_def)
  have "note_id note_A = ''A''"
    by (simp add: note_A_def)
  then show ?thesis
    using two_entries_two_notifications [OF target stored stored stored stored
        origin_inside_note_A origin_inside_note_A antipode_outside_note_A
        origin_inside_note_A fresh]
      origin_inside_note_A antipode_outside_note_A
    by simp
qed

end
